theory Spec2Isabelle
  imports Main "HOL-Library.Sublist" "HOL-Library.Word"
begin

section \<open>The API gateway of the IT equipment management system\<close>

text \<open>
  This theory embeds the middleware \<^verbatim>\<open>forward_request\<close> of
  \<^verbatim>\<open>src/api-gateway/main.py\<close>. The middleware is the whole dispatcher: it reads the
  first segment of the request path, looks it up in \<^verbatim>\<open>SERVICE_URLS\<close>, and either
  hands the request to \<^verbatim>\<open>call_next\<close> or forwards it with the shared HTTP client and
  relays the answer.

  The middleware works on objects of the web framework (Starlette, under FastAPI) and
  of the HTTP client (httpx). Where the source converts or hands over such an object,
  the model does what the object's class does:
  \<^item> \<^verbatim>\<open>request.headers\<close> and \<^verbatim>\<open>response.headers\<close> are lists of header lines, in which a
    name may occur more than once; \<^verbatim>\<open>dict(...)\<close> of either has one value per name
    (\<open>dict_request_headers\<close>, \<open>dict_response_headers\<close>);
  \<^item> \<^verbatim>\<open>request.query_params\<close> is a list of pairs, in which a key may occur more than
    once; the client reads the object through its \<^verbatim>\<open>items()\<close> (\<open>items\<close>);
  \<^item> \<^verbatim>\<open>JSONResponse(content=...)\<close> encodes the content when it is built, which can
    fail (\<open>render\<close>);
  \<^item> an exception that leaves the middleware is answered by the framework's outermost
    error handler (\<open>client_receives\<close>).
  The network, the JSON decoder behind \<^verbatim>\<open>response.json()\<close>, the JSON encoder of
  \<^verbatim>\<open>JSONResponse\<close> and the next handler \<^verbatim>\<open>call_next\<close> are parameters.
\<close>

subsection \<open>Python strings, lists and dictionaries\<close>

type_synonym bytes = "8 word list"

text \<open>
  The exceptions that can leave the middleware. \<open>RequestError cls msg\<close> is an
  \<^verbatim>\<open>httpx.RequestError\<close> or one of its subclasses (\<^verbatim>\<open>ConnectError\<close>,
  \<^verbatim>\<open>ConnectTimeout\<close>, ...): \<open>cls\<close> is the name of its class and \<open>msg\<close> is \<^verbatim>\<open>str(e)\<close>.
\<close>

datatype exn =
    RequestError string string
  | HTTPException int string
  | JSONDecodeError
  | ValueError
  | UnicodeEncodeError
  | IndexError
  | OtherException string

text \<open>\<^verbatim>\<open>s.strip(chars)\<close>: drop the leading and the trailing characters that are in \<open>chars\<close>.\<close>

definition strip :: "string \<Rightarrow> string \<Rightarrow> string" where
  "strip chars s =
     rev (dropWhile (\<lambda>c. c \<in> set chars) (rev (dropWhile (\<lambda>c. c \<in> set chars) s)))"

text \<open>
  \<^verbatim>\<open>s.split(sep)\<close> scans from the left and cuts at every occurrence of \<open>sep\<close> that does
  not overlap the one before; \<open>cur\<close> is the piece read so far. Python raises
  \<^verbatim>\<open>ValueError\<close> for an empty separator; both calls of the source pass a literal
  (\<^verbatim>\<open>"/"\<close> and \<^verbatim>\<open>"//"\<close>).
\<close>

fun split_from :: "string \<Rightarrow> string \<Rightarrow> string \<Rightarrow> string list" where
  "split_from sep cur [] = [cur]"
| "split_from sep cur (c # cs) =
     (if sep \<noteq> [] \<and> prefix sep (c # cs)
      then cur # split_from sep [] (drop (length sep) (c # cs))
      else split_from sep (cur @ [c]) cs)"

definition split :: "string \<Rightarrow> string \<Rightarrow> string list" where
  "split sep s = split_from sep [] s"

text \<open>
  \<^verbatim>\<open>s.lower()\<close> on text. A character of the model is a code point below 256, which is
  how header values read as Latin-1 arrive. Of these, Python lowers \<^verbatim>\<open>A\<close> to \<^verbatim>\<open>Z\<close>
  (65 to 90) and the accented capitals 192 to 214 and 216 to 222, each to the code
  point 32 above it, and keeps every other one. Code points from 256 on have no
  representation in the model.
\<close>

definition lower_char :: "char \<Rightarrow> char" where
  "lower_char c =
     (let n = of_char c :: nat
      in if (65 \<le> n \<and> n \<le> 90) \<or> (192 \<le> n \<and> n \<le> 214) \<or> (216 \<le> n \<and> n \<le> 222)
         then char_of (n + 32) else c)"

definition lower :: "string \<Rightarrow> string" where
  "lower s = map lower_char s"

text \<open>\<^verbatim>\<open>b.lower()\<close> on bytes, as the client applies it to header names: ASCII letters only.\<close>

definition ascii_lower_char :: "char \<Rightarrow> char" where
  "ascii_lower_char c =
     (let n = of_char c :: nat in if 65 \<le> n \<and> n \<le> 90 then char_of (n + 32) else c)"

definition ascii_lower :: "string \<Rightarrow> string" where
  "ascii_lower s = map ascii_lower_char s"

text \<open>\<^verbatim>\<open>sep.join(xs)\<close>.\<close>

fun join :: "string \<Rightarrow> string list \<Rightarrow> string" where
  "join sep [] = []"
| "join sep [x] = x"
| "join sep (x # y # ys) = x @ sep @ join sep (y # ys)"

text \<open>\<^verbatim>\<open>xs[i]\<close> for a literal index \<open>i \<ge> 0\<close>: out of range raises \<^verbatim>\<open>IndexError\<close>.\<close>

definition index :: "'a list \<Rightarrow> nat \<Rightarrow> exn + 'a" where
  "index xs i = (if i < length xs then Inr (xs ! i) else Inl IndexError)"

text \<open>\<^verbatim>\<open>d.get(k, dflt)\<close> and \<^verbatim>\<open>d.pop(k, None)\<close> on a dictionary.\<close>

definition get :: "('k \<rightharpoonup> 'v) \<Rightarrow> 'k \<Rightarrow> 'v \<Rightarrow> 'v" where
  "get d k dflt = (case d k of None \<Rightarrow> dflt | Some v \<Rightarrow> v)"

definition pop :: "'k \<Rightarrow> ('k \<rightharpoonup> 'v) \<Rightarrow> ('k \<rightharpoonup> 'v)" where
  "pop k d = d(k := None)"

text \<open>
  \<^verbatim>\<open>d[k] = v\<close> on a dictionary whose order matters: a key that is there keeps its
  place and takes the new value, a new key goes to the end.
\<close>

fun setitem :: "'k \<Rightarrow> 'v \<Rightarrow> ('k \<times> 'v) list \<Rightarrow> ('k \<times> 'v) list" where
  "setitem k v [] = [(k, v)]"
| "setitem k v ((k', v') # d) =
     (if k' = k then (k', v) # d else (k', v') # setitem k v d)"

subsection \<open>What the framework and the client do with the objects\<close>

text \<open>
  \<^verbatim>\<open>dict(request.headers)\<close>, line 43. The framework's \<^verbatim>\<open>Headers\<close> lists every line in
  \<^verbatim>\<open>keys()\<close> and answers a lookup with the first line of that name, so the dictionary
  has, for each name, the value of its first line. Header names come in lower case
  from the server.
\<close>

definition dict_request_headers :: "(string \<times> string) list \<Rightarrow> (string \<rightharpoonup> string)" where
  "dict_request_headers lines = map_of lines"

text \<open>
  \<^verbatim>\<open>dict(response.headers)\<close>, line 56, and \<^verbatim>\<open>response.headers.get(...)\<close>, line 54. The
  client's \<^verbatim>\<open>Headers\<close> has its names in lower case as keys and answers a lookup
  with the values of all lines of that name, joined by a comma and a space.
\<close>

definition dict_response_headers :: "(string \<times> string) list \<Rightarrow> (string \<rightharpoonup> string)" where
  "dict_response_headers lines k =
     (case [v. (n, v) \<leftarrow> lines, ascii_lower n = k] of
        [] \<Rightarrow> None
      | v # vs \<Rightarrow> Some (join '', '' (v # vs)))"

text \<open>
  \<^verbatim>\<open>params=request.query_params\<close>, line 50. The client takes a mapping that is not its
  own class through \<^verbatim>\<open>items()\<close>, and the framework's \<^verbatim>\<open>QueryParams.items()\<close> are the
  items of the dictionary \<^verbatim>\<open>{k: v for k, v in pairs}\<close>: each key once, at the place
  of its first pair and with the value of its last.
\<close>

definition items :: "(string \<times> string) list \<Rightarrow> (string \<times> string) list" where
  "items pairs = fold (\<lambda>(k, v) d. setitem k v d) pairs []"

text \<open>
  \<^verbatim>\<open>JSONResponse\<close> encodes its content when it is built (\<^verbatim>\<open>json.dumps\<close> with
  \<^verbatim>\<open>allow_nan=False\<close>, then UTF-8). The encoder raises \<^verbatim>\<open>ValueError\<close> for a float that
  is not finite and \<^verbatim>\<open>UnicodeEncodeError\<close> for a string with a lone surrogate; the
  decoder accepts both.
\<close>

datatype render_error = OutOfRangeFloat | SurrogateNotAllowed

fun raise_render :: "render_error \<Rightarrow> exn" where
  "raise_render OutOfRangeFloat = ValueError"
| "raise_render SurrogateNotAllowed = UnicodeEncodeError"

subsection \<open>The routing table\<close>

definition SERVICE_URLS :: "(string \<times> string) list" where
  "SERVICE_URLS =
     [(''equipment'', ''http://equipment-service:8001''),
      (''providers'', ''http://provider-service:8002''),
      (''maintenance'', ''http://maintenance-service:8003''),
      (''reports'', ''http://report-service:8004'')]"

subsection \<open>Requests, outbound calls and responses\<close>

text \<open>
  The inbound request, as the middleware reads it: \<open>headers\<close> are the header lines
  and \<open>query_params\<close> the pairs of the query string, both in the order they came.
\<close>

record request =
  "method" :: string
  path :: string
  headers :: "(string \<times> string) list"
  query_params :: "(string \<times> string) list"
  body :: bytes

text \<open>
  One \<^verbatim>\<open>client.request(...)\<close>, as the client sends it: the headers of the dictionary
  it was given and the query parameters it read from the object it was given.
\<close>

record client_call =
  call_method :: string
  call_url :: string
  call_headers :: "string \<rightharpoonup> string"
  call_params :: "(string \<times> string) list"
  call_content :: bytes

text \<open>What the middleware reads of the backend's response.\<close>

record backend_response =
  status_code :: int
  response_headers :: "(string \<times> string) list"
  content :: bytes

text \<open>
  The response the middleware builds: \<^verbatim>\<open>JSONResponse(content, status_code, headers)\<close>,
  with the encoded content as its body, or
  \<^verbatim>\<open>Response(content, status_code, media_type, headers)\<close>.
\<close>

datatype response =
    JSONResponse (out_content: bytes) (out_status: int) (out_headers: "string \<rightharpoonup> string")
  | Response (out_content: bytes) (out_status: int) (out_media_type: string)
      (out_headers: "string \<rightharpoonup> string")

subsection \<open>The middleware\<close>

text \<open>Line 44: \<^verbatim>\<open>target_url.split("//")[1].split("/")[0]\<close>.\<close>

definition host_of :: "string \<Rightarrow> exn + string" where
  "host_of target_url =
     (case index (split ''//'' target_url) 1 of
        Inl e \<Rightarrow> Inl e
      | Inr rest \<Rightarrow> index (split ''/'' rest) 0)"

text \<open>
  Lines 54 to 73: classify the backend's response and build the response of the
  gateway. \<open>response_json\<close> is \<^verbatim>\<open>response.json()\<close> as a function of the body, \<open>None\<close>
  is the decoder raising; \<open>render\<close> is the encoder of \<^verbatim>\<open>JSONResponse\<close>.
\<close>

definition relay ::
  "(bytes \<Rightarrow> 'j option) \<Rightarrow> ('j \<Rightarrow> render_error + bytes) \<Rightarrow> backend_response
     \<Rightarrow> exn + response" where
  "relay response_json render response =
     (let content_type =
            lower (get (dict_response_headers (response_headers response)) ''content-type'' '''');
          forward_headers =
            pop ''connection'' (pop ''transfer-encoding'' (pop ''content-encoding''
              (dict_response_headers (response_headers response))))
      in if sublist ''application/json'' content_type
            \<or> sublist ''application/problem+json'' content_type
         then (case response_json (content response) of
                 None \<Rightarrow> Inl JSONDecodeError
               | Some v \<Rightarrow>
                   (case render v of
                      Inl e \<Rightarrow> Inl (raise_render e)
                    | Inr encoded \<Rightarrow>
                        Inr (JSONResponse encoded (status_code response) forward_headers)))
         else Inr (Response (content response) (status_code response)
                     (if content_type = [] then ''application/octet-stream'' else content_type)
                     forward_headers))"

text \<open>
  Lines 43 to 73, the body of the \<^verbatim>\<open>try\<close>. The result is paired with the list of
  the calls made through the client, in order. \<open>client_request\<close> is the network: the
  backend's response to a call, or the exception \<^verbatim>\<open>client.request\<close> raises.
\<close>

definition forward ::
  "(client_call \<Rightarrow> exn + backend_response) \<Rightarrow> (bytes \<Rightarrow> 'j option)
     \<Rightarrow> ('j \<Rightarrow> render_error + bytes) \<Rightarrow> request \<Rightarrow> string
     \<Rightarrow> (exn + response) \<times> client_call list" where
  "forward client_request response_json render request target_url =
     (case host_of target_url of
        Inl e \<Rightarrow> (Inl e, [])
      | Inr host \<Rightarrow>
          (let call = \<lparr>call_method = method request,
                        call_url = target_url,
                        call_headers = (dict_request_headers (headers request))(''host'' \<mapsto> host),
                        call_params = items (query_params request),
                        call_content = body request\<rparr>
           in case client_request call of
                Inl e \<Rightarrow> (Inl e, [call])
              | Inr response \<Rightarrow> (relay response_json render response, [call])))"

text \<open>Lines 75 to 79, the \<^verbatim>\<open>except httpx.RequestError as e\<close> clause.\<close>

definition except_RequestError :: "string \<Rightarrow> exn + 'a \<Rightarrow> exn + 'a" where
  "except_RequestError service_name r =
     (case r of
        Inl (RequestError cls msg) \<Rightarrow>
          Inl (HTTPException 503 (''Service '' @ service_name @ '' is unavailable: '' @ msg))
      | _ \<Rightarrow> r)"

text \<open>Lines 29 to 79.\<close>

definition forward_request ::
  "(client_call \<Rightarrow> exn + backend_response) \<Rightarrow> (bytes \<Rightarrow> 'j option)
     \<Rightarrow> ('j \<Rightarrow> render_error + bytes) \<Rightarrow> request
     \<Rightarrow> (request \<Rightarrow> exn + response) \<Rightarrow> (exn + response) \<times> client_call list" where
  "forward_request client_request response_json render request call_next =
     (case split ''/'' (strip ''/'' (path request)) of
        [] \<Rightarrow> (call_next request, [])
      | service_name # _ \<Rightarrow>
          (case map_of SERVICE_URLS service_name of
             None \<Rightarrow> (call_next request, [])
           | Some base \<Rightarrow>
               (let target_url = base @ path request;
                    (r, calls) = forward client_request response_json render request target_url
                in (except_RequestError service_name r, calls))))"

subsection \<open>What the client of the gateway receives\<close>

text \<open>
  The middleware is registered with \<^verbatim>\<open>@app.middleware("http")\<close>, line 28. Such a
  function runs outside the framework's handler of \<^verbatim>\<open>HTTPException\<close>, which wraps the
  routes only and is the one place where that exception becomes a response with its
  status and detail. An exception that leaves the middleware, \<^verbatim>\<open>HTTPException\<close>
  included, reaches the outermost error handler, and that one answers with the plain
  text \<^verbatim>\<open>Internal Server Error\<close> and status 500.
\<close>

definition internal_server_error :: response where
  "internal_server_error =
     Response [73, 110, 116, 101, 114, 110, 97, 108, 32, 83, 101, 114, 118, 101, 114, 32,
               69, 114, 114, 111, 114] 500 ''text/plain'' Map.empty"

definition client_receives :: "exn + response \<Rightarrow> response" where
  "client_receives r = (case r of Inl e \<Rightarrow> internal_server_error | Inr out \<Rightarrow> out)"

subsection \<open>Example traffic\<close>

text \<open>
  Concrete requests, backends and handlers, on which the theorems below are run. The
  decoded JSON values of the examples are of the type \<open>json\<close>; \<open>example_json\<close> is
  the decoder on the bodies of the examples, and \<open>example_render\<close> the encoder on the
  two values that it yields.
\<close>

datatype json = JNaN | JInt int | JString string | JObject "(string \<times> json) list"

definition example_request :: request where
  "example_request =
     \<lparr>method = ''GET'', path = ''/equipment/42'',
      headers = [(''host'', ''gateway:8000''), (''accept'', ''text/html''),
                 (''accept'', ''application/json'')],
      query_params = [(''tag'', ''a''), (''tag'', ''b'')],
      body = []\<rparr>"

definition example_call :: client_call where
  "example_call =
     \<lparr>call_method = ''GET'', call_url = ''http://equipment-service:8001/equipment/42'',
      call_headers = [''accept'' \<mapsto> ''text/html'', ''host'' \<mapsto> ''equipment-service:8001''],
      call_params = [(''tag'', ''b'')],
      call_content = []\<rparr>"


text \<open>The 32 bytes of \<^verbatim>\<open>{"id_equipo":42,"tipo":"Laptop"}\<close>.\<close>

definition laptop_body :: bytes where
  "laptop_body =
     [123, 34, 105, 100, 95, 101, 113, 117, 105, 112, 111, 34, 58, 52, 50, 44,
      34, 116, 105, 112, 111, 34, 58, 34, 76, 97, 112, 116, 111, 112, 34, 125]"

text \<open>The 35 bytes of \<^verbatim>\<open>{"id_equipo": 42, "tipo": "Laptop"}\<close>: the same value, spaced.\<close>

definition spaced_body :: bytes where
  "spaced_body =
     [123, 34, 105, 100, 95, 101, 113, 117, 105, 112, 111, 34, 58, 32, 52, 50, 44, 32,
      34, 116, 105, 112, 111, 34, 58, 32, 34, 76, 97, 112, 116, 111, 112, 34, 125]"

text \<open>The bytes of \<^verbatim>\<open>NaN\<close>, which Python's decoder reads as the float that is no number.\<close>

definition nan_body :: bytes where
  "nan_body = [78, 97, 78]"

definition laptop :: json where
  "laptop = JObject [(''id_equipo'', JInt 42), (''tipo'', JString ''Laptop'')]"

definition example_json :: "bytes \<Rightarrow> json option" where
  "example_json b =
     (if b = laptop_body \<or> b = spaced_body then Some laptop
      else if b = nan_body then Some JNaN
      else None)"

definition example_render :: "json \<Rightarrow> render_error + bytes" where
  "example_render v = (if v = laptop then Inr laptop_body else Inl OutOfRangeFloat)"


definition spaced_response :: backend_response where
  "spaced_response =
     \<lparr>status_code = 200,
      response_headers = [(''content-type'', ''application/json''),
                          (''content-length'', ''35'')],
      content = spaced_body\<rparr>"

definition nan_response :: backend_response where
  "nan_response =
     \<lparr>status_code = 200,
      response_headers = [(''content-type'', ''application/json'')],
      content = nan_body\<rparr>"



definition cookie_response :: backend_response where
  "cookie_response =
     \<lparr>status_code = 200,
      response_headers = [(''content-type'', ''text/html''),
                          (''set-cookie'', ''a=1''),
                          (''set-cookie'', ''b=2'')],
      content = [60, 104, 49, 62]\<rparr>"

definition broken_response :: backend_response where
  "broken_response =
     \<lparr>status_code = 200,
      response_headers = [(''content-type'', ''application/problem+json'')],
      content = [60, 104, 49, 62]\<rparr>"

definition unreachable :: "client_call \<Rightarrow> exn + backend_response" where
  "unreachable c = Inl (RequestError ''ConnectError'' ''All connection attempts failed'')"

definition answering :: "backend_response \<Rightarrow> client_call \<Rightarrow> exn + backend_response" where
  "answering response c = Inr response"

text \<open>The handler of \<^verbatim>\<open>/health\<close>: status 200 and the bytes of \<^verbatim>\<open>{"status":"healthy"}\<close>.\<close>

definition health_check :: "request \<Rightarrow> exn + response" where
  "health_check r =
     Inr (JSONResponse
       [123, 34, 115, 116, 97, 116, 117, 115, 34, 58, 34, 104, 101, 97, 108, 116, 104, 121,
        34, 125] 200 Map.empty)"

lemmas run_simps =
  forward_request_def forward_def host_of_def split_def strip_def index_def SERVICE_URLS_def

section \<open>Properties of the string operations\<close>

lemma split_from_not_Nil: "split_from sep cur s \<noteq> []"
  by (induction sep cur s rule: split_from.induct) auto



lemma index_split_0: "index (split sep s) 0 = Inr (hd (split_from sep [] s))"
  by (simp add: split_def index_def split_from_not_Nil hd_conv_nth)

lemma index_split_http:
  "index (split ''//'' (''http://'' @ x)) 1 = Inr (hd (split_from ''//'' [] x))"
  by (simp add: split_def index_def split_from_not_Nil hd_conv_nth)

section \<open>Parsing the host out of the target URL\<close>

text \<open>On a URL that starts with \<^verbatim>\<open>http://\<close>, line 44 never raises.\<close>

lemma host_of_http_total: "\<exists>h. host_of (''http://'' @ x) = Inr h"
  unfolding host_of_def index_split_http by (simp add: index_split_0)


text \<open>Every base address of the routing table is \<^verbatim>\<open>http://\<close> and an authority without a slash.\<close>

lemma SERVICE_URLS_form:
  "map_of SERVICE_URLS name = Some base \<Longrightarrow> \<exists>h. base = ''http://'' @ h \<and> CHR ''/'' \<notin> set h"
  by (auto simp: SERVICE_URLS_def split: if_splits)

section \<open>What the library views keep\<close>

text \<open>A name with exactly one line in the backend's response keeps the value of that line.\<close>

lemma dict_response_headers_single:
  "[v. (n, v) \<leftarrow> lines, ascii_lower n = k] = [v] \<Longrightarrow> dict_response_headers lines k = Some v"
  by (simp add: dict_response_headers_def)


text \<open>No key occurs twice in \<open>items\<close>, and a key's value is that of its last pair.\<close>

lemma map_of_setitem: "map_of (setitem k v d) = (map_of d)(k \<mapsto> v)"
  by (induction d) (auto simp: fun_eq_iff)

lemma keys_setitem: "map fst (setitem k v d) = (if k \<in> fst ` set d then map fst d else map fst d @ [k])"
  by (induction d) (auto split: if_splits)

lemma distinct_setitem: "distinct (map fst d) \<Longrightarrow> distinct (map fst (setitem k v d))"
  by (simp add: keys_setitem)

lemma fold_setitem:
  "distinct (map fst d) \<Longrightarrow>
   distinct (map fst (fold (\<lambda>(k, v) d. setitem k v d) pairs d))
   \<and> map_of (fold (\<lambda>(k, v) d. setitem k v d) pairs d) = map_of d ++ map_of (rev pairs)"
proof (induction pairs arbitrary: d)
  case Nil
  then show ?case by simp
next
  case (Cons p pairs)
  obtain k v where p: "p = (k, v)" by (cases p)
  from Cons.prems have "distinct (map fst (setitem k v d))"
    by (rule distinct_setitem)
  from Cons.IH [OF this] show ?case
    by (simp add: p map_of_setitem map_add_upd_left [symmetric] del: map_add_upd_left)
       (simp add: map_add_def fun_eq_iff split: option.splits)
qed

lemma items_last_value:
  "distinct (map fst (items pairs)) \<and> map_of (items pairs) = map_of (rev pairs)"
  using fold_setitem [of "[]" pairs] by (simp add: items_def)

section \<open>The two paths through the middleware\<close>

lemma forward_calls:
  "host_of target_url = Inr h \<Longrightarrow>
   forward cr rj rd request target_url =
     (let call = \<lparr>call_method = method request, call_url = target_url,
                   call_headers = (dict_request_headers (headers request))(''host'' \<mapsto> h),
                   call_params = items (query_params request), call_content = body request\<rparr>
      in (case cr call of Inl e \<Rightarrow> Inl e | Inr response \<Rightarrow> relay rj rd response, [call]))"
  by (simp add: forward_def Let_def split: sum.splits)

text \<open>A request for a known service: one call, and the \<^verbatim>\<open>except\<close> clause around its result.\<close>

lemma forward_request_in_scope:
  assumes "split ''/'' (strip ''/'' (path request)) = service_name # rest"
    and "map_of SERVICE_URLS service_name = Some base"
  shows "\<exists>h. host_of (base @ path request) = Inr h \<and>
     forward_request cr rj rd request cn =
       (let call = \<lparr>call_method = method request, call_url = base @ path request,
                     call_headers = (dict_request_headers (headers request))(''host'' \<mapsto> h),
                     call_params = items (query_params request),
                     call_content = body request\<rparr>
        in (except_RequestError service_name
              (case cr call of Inl e \<Rightarrow> Inl e | Inr response \<Rightarrow> relay rj rd response),
            [call]))"
proof -
  from assms(2) obtain x where "base = ''http://'' @ x"
    using SERVICE_URLS_form by blast
  then obtain h where h: "host_of (base @ path request) = Inr h"
    using host_of_http_total [of "x @ path request"] by auto
  show ?thesis
    using assms h forward_calls [OF h, of cr rj rd request]
    by (intro exI [of _ h]) (simp add: forward_request_def Let_def)
qed


text \<open>Whenever a call was made, the result is what the \<^verbatim>\<open>except\<close> clause makes of its outcome.\<close>

lemma forward_request_called:
  assumes "snd (forward_request cr rj rd request cn) = [call]"
  shows "\<exists>service_name rest. split ''/'' (strip ''/'' (path request)) = service_name # rest \<and>
     fst (forward_request cr rj rd request cn) =
       except_RequestError service_name
         (case cr call of Inl e \<Rightarrow> Inl e | Inr response \<Rightarrow> relay rj rd response)"
proof (cases "split ''/'' (strip ''/'' (path request))")
  case Nil
  with assms show ?thesis by (simp add: forward_request_def)
next
  case (Cons service_name rest)
  show ?thesis
  proof (cases "map_of SERVICE_URLS service_name")
    case None
    with Cons assms show ?thesis by (simp add: forward_request_def)
  next
    case (Some base)
    from forward_request_in_scope [OF Cons Some, of cr rj rd cn] assms Cons
    show ?thesis by (auto simp: Let_def)
  qed
qed

text \<open>Nothing that \<open>relay\<close> raises is a \<^verbatim>\<open>RequestError\<close>, so the clause lets it pass.\<close>

lemma raise_render_not_RequestError: "raise_render e \<noteq> RequestError cls msg"
  by (cases e) simp_all

lemma except_RequestError_relay:
  "except_RequestError service_name (relay rj rd response) = relay rj rd response"
proof (cases "relay rj rd response")
  case (Inl e)
  then have "\<forall>cls msg. e \<noteq> RequestError cls msg"
    by (auto simp: relay_def Let_def raise_render_not_RequestError
        split: option.splits sum.splits if_splits)
  with Inl show ?thesis
    by (cases e) (simp_all add: except_RequestError_def)
next
  case (Inr out)
  then show ?thesis by (simp add: except_RequestError_def)
qed

lemma forward_request_relayed:
  assumes "snd (forward_request cr rj rd request cn) = [call]"
    and "cr call = Inr response"
  shows "fst (forward_request cr rj rd request cn) = relay rj rd response"
  using forward_request_called [OF assms(1)] assms(2)
  by (auto simp: except_RequestError_relay)

section \<open>The example traffic, evaluated\<close>

lemma example_parts:
  "split ''/'' (strip ''/'' (path example_request)) = ''equipment'' # [''42'']"
  by (simp add: example_request_def split_def strip_def)


text \<open>Whatever the backend does, the example request makes exactly the example call.\<close>

lemma example_calls: "snd (forward_request cr rj rd example_request cn) = [example_call]"
  by (simp add: run_simps example_request_def example_call_def dict_request_headers_def
      items_def Let_def fun_upd_twist split: sum.splits)

lemma answering_call: "answering response example_call = Inr response"
  by (simp add: answering_def)



lemma spaced_is_json:
  "sublist ''application/json''
     (lower (get (dict_response_headers (response_headers spaced_response)) ''content-type'' ''''))"
  by code_simp

lemma nan_is_json:
  "sublist ''application/json''
     (lower (get (dict_response_headers (response_headers nan_response)) ''content-type'' ''''))"
  by code_simp




lemma cookie_is_not_json:
  "\<not> sublist ''application/json''
       (lower (get (dict_response_headers (response_headers cookie_response)) ''content-type'' ''''))"
  "\<not> sublist ''application/problem+json''
       (lower (get (dict_response_headers (response_headers cookie_response)) ''content-type'' ''''))"
  by code_simp+

lemma broken_is_json:
  "sublist ''application/problem+json''
     (lower (get (dict_response_headers (response_headers broken_response))
        ''content-type'' ''''))"
  by code_simp




lemma spaced_lines:
  "dict_response_headers (response_headers spaced_response) ''content-length'' = Some ''35''"
  by code_simp


section \<open>Routing\<close>

text \<open>
  What holds of every request in scope, whatever the backend does: exactly one call
  is made, with the method and the body bytes of the inbound request, and with the
  query parameters as the client reads them: each key once, with the value of its
  last pair.
\<close>

lemma forward_request_one_call:
  assumes "split ''/'' (strip ''/'' (path request)) = service_name # rest"
    and "map_of SERVICE_URLS service_name = Some base"
  shows "\<exists>call. snd (forward_request client_request response_json render request call_next)
                   = [call]
           \<and> prefix base (call_url call)
           \<and> call_method call = method request
           \<and> call_content call = body request
           \<and> distinct (map fst (call_params call))
           \<and> map_of (call_params call) = map_of (rev (query_params request))"
  using forward_request_in_scope [OF assms, of client_request response_json render call_next]
    items_last_value [of "query_params request"]
  by (auto simp: Let_def)

text \<open>
  Claim C1. The claim is that a request in scope makes exactly one outbound call whose
  method, query parameters (order and repeated keys kept) and body are those of the
  inbound request. The call, its method and its body are so (see above), the query
  parameters are not: the request \<^verbatim>\<open>GET /equipment/42?tag=a&tag=b\<close> goes out with the
  one parameter \<^verbatim>\<open>tag=b\<close>.
\<close>

theorem query_params_collapse:
  "query_params example_request = [(''tag'', ''a''), (''tag'', ''b'')]
   \<and> map call_params
         (snd (forward_request unreachable example_json example_render example_request
            health_check))
       = [[(''tag'', ''b'')]]"
proof -
  have "query_params example_request = [(''tag'', ''a''), (''tag'', ''b'')]"
    by (simp add: example_request_def)
  moreover have "call_params example_call = [(''tag'', ''b'')]"
    by (simp add: example_call_def)
  ultimately show ?thesis
    by (simp add: example_calls)
qed





text \<open>
  Claim C10. For every path, \<^verbatim>\<open>path.strip("/").split("/")\<close> is a non-empty list, so
  reading its element 0 never raises and the guard \<^verbatim>\<open>if not path_parts\<close> of line 32 is
  never taken. For the paths \<^verbatim>\<open>/\<close> and the empty path the list is the empty string
  alone; the empty string is no key of the routing table, so these requests go to
  \<^verbatim>\<open>call_next\<close> and no call is made.
\<close>

theorem first_segment_total:
  "split ''/'' (strip ''/'' p) \<noteq> []
   \<and> index (split ''/'' (strip ''/'' p)) 0 = Inr (hd (split ''/'' (strip ''/'' p)))
   \<and> split ''/'' (strip ''/'' ''/'') = ['''']
   \<and> split ''/'' (strip ''/'' '''') = ['''']
   \<and> map_of SERVICE_URLS '''' = None
   \<and> forward_request client_request response_json render (request\<lparr>path := ''/''\<rparr>) call_next
       = (call_next (request\<lparr>path := ''/''\<rparr>), [])
   \<and> forward_request client_request response_json render (request\<lparr>path := ''''\<rparr>) call_next
       = (call_next (request\<lparr>path := ''''\<rparr>), [])"
proof -
  have "split ''/'' (strip ''/'' p) \<noteq> []"
    by (simp add: split_def split_from_not_Nil)
  moreover have "index (split ''/'' (strip ''/'' p)) 0 = Inr (hd (split ''/'' (strip ''/'' p)))"
    unfolding index_split_0 by (simp add: split_def)
  moreover have "split ''/'' (strip ''/'' ''/'') = ['''']" "split ''/'' (strip ''/'' '''') = ['''']"
    by (simp_all add: split_def strip_def)
  moreover have "map_of SERVICE_URLS '''' = None"
    by (simp add: SERVICE_URLS_def)
  ultimately show ?thesis
    by (simp add: forward_request_def)
qed

theorem first_segment_total_witness:
  "split ''/'' (strip ''/'' ''//equipment//42/'') \<noteq> []
   \<and> index (split ''/'' (strip ''/'' ''//equipment//42/'')) 0 = Inr ''equipment''
   \<and> forward_request unreachable example_json example_render
         (example_request\<lparr>path := ''/''\<rparr>) health_check
       = (health_check (example_request\<lparr>path := ''/''\<rparr>), [])
   \<and> forward_request unreachable example_json example_render
         (example_request\<lparr>path := ''''\<rparr>) health_check
       = (health_check (example_request\<lparr>path := ''''\<rparr>), [])"
proof -
  have "hd (split ''/'' (strip ''/'' ''//equipment//42/'')) = ''equipment''"
    by (simp add: split_def strip_def)
  with first_segment_total [of "''//equipment//42/''" unreachable example_json example_render
      example_request health_check]
  show ?thesis by simp
qed

section \<open>Forwarding\<close>




section \<open>Failure of the transport\<close>

text \<open>
  What the middleware itself does when the call fails with a transport error of any
  class \<open>cls\<close> and text \<open>msg\<close>: it raises \<^verbatim>\<open>HTTPException\<close> with status 503 and a
  detail that holds the name of the service and the text of the error.
\<close>

lemma transport_failure_raises:
  assumes "split ''/'' (strip ''/'' (path request)) = service_name # rest"
    and "snd (forward_request client_request response_json render request call_next) = [call]"
    and "client_request call = Inl (RequestError cls msg)"
  shows "fst (forward_request client_request response_json render request call_next)
           = Inl (HTTPException 503
               (''Service '' @ service_name @ '' is unavailable: '' @ msg))"
  using forward_request_called [OF assms(2)] assms(1,3)
  by (auto simp: except_RequestError_def)

text \<open>No exception that leaves the middleware reaches the client as anything but a 500.\<close>

lemma client_receives_exception: "out_status (client_receives (Inl e)) = 500"
  by (simp add: client_receives_def internal_server_error_def)

text \<open>
  Claim C2. The claim is that the client receives a 503 whose detail names the
  service. The middleware raises that exception, but it raises it where the framework
  does not turn an \<^verbatim>\<open>HTTPException\<close> into a response: for \<^verbatim>\<open>GET /equipment/42\<close> with
  the backend unreachable, the client receives status 500 and the body
  \<^verbatim>\<open>Internal Server Error\<close>, in which the service is not named.
\<close>

theorem unavailable_is_500:
  "fst (forward_request unreachable example_json example_render example_request health_check)
     = Inl (HTTPException 503
         ''Service equipment is unavailable: All connection attempts failed'')
   \<and> client_receives
         (fst (forward_request unreachable example_json example_render example_request
            health_check))
       = internal_server_error
   \<and> out_status internal_server_error = 500
   \<and> length (out_content internal_server_error) = 21"
proof -
  have "unreachable example_call
          = Inl (RequestError ''ConnectError'' ''All connection attempts failed'')"
    by (simp add: unreachable_def)
  from transport_failure_raises [OF example_parts
      example_calls [of unreachable example_json example_render health_check] this]
  have "fst (forward_request unreachable example_json example_render example_request
          health_check)
        = Inl (HTTPException 503
            ''Service equipment is unavailable: All connection attempts failed'')"
    by simp
  then show ?thesis
    by (simp add: client_receives_def internal_server_error_def)
qed

section \<open>Relaying the backend's response\<close>

text \<open>
  What the middleware does with a backend response whose content type, in lower case,
  contains \<^verbatim>\<open>application/json\<close> or \<^verbatim>\<open>application/problem+json\<close> and whose body the
  decoder reads as \<open>v\<close>: if the encoder raises on \<open>v\<close>, so does the middleware;
  otherwise the response has the encoding of \<open>v\<close> as its body, the backend's status,
  and the backend's headers without the three that are popped, so with the backend's
  \<^verbatim>\<open>content-length\<close>, which is the length of the backend's body and not of this one.
\<close>

lemma json_relay:
  assumes "snd (forward_request client_request response_json render request call_next) = [call]"
    and "client_request call = Inr response"
    and "sublist ''application/json''
           (lower (get (dict_response_headers (response_headers response))
              ''content-type'' ''''))
         \<or> sublist ''application/problem+json''
           (lower (get (dict_response_headers (response_headers response))
              ''content-type'' ''''))"
    and "response_json (content response) = Some v"
  shows "fst (forward_request client_request response_json render request call_next)
           = (case render v of
                Inl e \<Rightarrow> Inl (raise_render e)
              | Inr encoded \<Rightarrow>
                  Inr (JSONResponse encoded (status_code response)
                    (pop ''connection'' (pop ''transfer-encoding'' (pop ''content-encoding''
                      (dict_response_headers (response_headers response)))))))"
  using forward_request_relayed [OF assms(1,2)] assms(3,4)
  by (auto simp: relay_def Let_def)

text \<open>
  Claim C3. The claim is that for a JSON response of the backend whose body parses,
  the outbound body parses to the same value. It fails in two ways. The backend's
  \<^verbatim>\<open>content-length\<close> is forwarded although the body is encoded anew: the 35 bytes of
  \<^verbatim>\<open>{"id_equipo": 42, "tipo": "Laptop"}\<close> come back as the 32 bytes of
  \<^verbatim>\<open>{"id_equipo":42,"tipo":"Laptop"}\<close> under the header \<^verbatim>\<open>content-length: 35\<close>, a
  response that cannot be delivered. And the body \<^verbatim>\<open>NaN\<close>, which the decoder accepts,
  makes the encoder raise \<^verbatim>\<open>ValueError\<close>, so there is no response at all.
\<close>

theorem json_relay_stale_length:
  "content spaced_response = spaced_body
   \<and> length spaced_body = 35
   \<and> fst (forward_request (answering spaced_response) example_json example_render
        example_request health_check)
       = Inr (JSONResponse laptop_body 200
           (pop ''connection'' (pop ''transfer-encoding'' (pop ''content-encoding''
             (dict_response_headers (response_headers spaced_response))))))
   \<and> length laptop_body = 32
   \<and> pop ''connection'' (pop ''transfer-encoding'' (pop ''content-encoding''
        (dict_response_headers (response_headers spaced_response)))) ''content-length''
       = Some ''35''
   \<and> fst (forward_request (answering nan_response) example_json example_render
        example_request health_check)
       = Inl ValueError"
proof -
  have 1: "content spaced_response = spaced_body" "status_code spaced_response = 200"
    by (simp_all add: spaced_response_def)
  have 2: "length spaced_body = 35" "length laptop_body = 32"
    by (simp_all add: spaced_body_def laptop_body_def)
  have 3: "example_json (content spaced_response) = Some laptop"
    by (simp add: 1 example_json_def)
  have 4: "example_render laptop = Inr laptop_body"
    by (simp add: example_render_def)
  have 5: "fst (forward_request (answering spaced_response) example_json example_render
             example_request health_check)
           = Inr (JSONResponse laptop_body 200
               (pop ''connection'' (pop ''transfer-encoding'' (pop ''content-encoding''
                 (dict_response_headers (response_headers spaced_response))))))"
    using json_relay [OF example_calls [of "answering spaced_response" example_json
          example_render health_check] answering_call [of spaced_response]
        disjI1 [OF spaced_is_json] 3]
    by (simp add: 4 1)
  have 6: "pop ''connection'' (pop ''transfer-encoding'' (pop ''content-encoding''
        (dict_response_headers (response_headers spaced_response)))) ''content-length''
       = Some ''35''"
    by (simp add: pop_def spaced_lines)
  have 7: "example_json (content nan_response) = Some JNaN"
    by (simp add: nan_response_def example_json_def nan_body_def laptop_body_def
        spaced_body_def)
  have 8: "example_render JNaN = Inl OutOfRangeFloat"
    by (simp add: example_render_def laptop_def)
  have 9: "fst (forward_request (answering nan_response) example_json example_render
        example_request health_check) = Inl ValueError"
    using json_relay [OF example_calls [of "answering nan_response" example_json
          example_render health_check] answering_call [of nan_response]
        disjI1 [OF nan_is_json] 7]
    by (simp add: 8)
  from 1(1) 2 5 6 9 show ?thesis
    by (intro conjI)
qed







section \<open>A body that is not JSON\<close>

text \<open>
  Claim C8. When the backend answers the call with a content type that, in lower
  case, contains \<^verbatim>\<open>application/json\<close> or \<^verbatim>\<open>application/problem+json\<close>, and the
  decoder raises on the body, the decoder's error leaves the middleware as it is: the
  result is that exception, it is no response, and it is not the \<^verbatim>\<open>HTTPException\<close>
  with status 503 of the \<^verbatim>\<open>except\<close> clause.
\<close>

theorem malformed_json_propagates:
  assumes "snd (forward_request client_request response_json render request call_next) = [call]"
    and "client_request call = Inr response"
    and "sublist ''application/json''
           (lower (get (dict_response_headers (response_headers response))
              ''content-type'' ''''))
         \<or> sublist ''application/problem+json''
           (lower (get (dict_response_headers (response_headers response))
              ''content-type'' ''''))"
    and "response_json (content response) = None"
  shows "fst (forward_request client_request response_json render request call_next)
           = Inl JSONDecodeError
         \<and> (\<forall>detail. fst (forward_request client_request response_json render request
                           call_next)
                        \<noteq> Inl (HTTPException 503 detail))
         \<and> (\<forall>out. fst (forward_request client_request response_json render request call_next)
                     \<noteq> Inr out)"
  using forward_request_relayed [OF assms(1,2)] assms(3,4)
  by (auto simp: relay_def Let_def)

theorem malformed_json_propagates_witness:
  "snd (forward_request (answering broken_response) example_json example_render
          example_request health_check)
     = [example_call]
   \<and> answering broken_response example_call = Inr broken_response
   \<and> sublist ''application/problem+json''
         (lower (get (dict_response_headers (response_headers broken_response))
            ''content-type'' ''''))
   \<and> example_json (content broken_response) = None
   \<and> fst (forward_request (answering broken_response) example_json example_render
            example_request health_check) = Inl JSONDecodeError"
proof -
  note calls = example_calls [of "answering broken_response" example_json example_render
      health_check]
  note answer = answering_call [of broken_response]
  have 3: "sublist ''application/json''
             (lower (get (dict_response_headers (response_headers broken_response))
                ''content-type'' ''''))
           \<or> sublist ''application/problem+json''
             (lower (get (dict_response_headers (response_headers broken_response))
                ''content-type'' ''''))"
    using broken_is_json by (rule disjI2)
  have 4: "example_json (content broken_response) = None"
    by (simp add: example_json_def broken_response_def laptop_body_def spaced_body_def
        nan_body_def)
  from malformed_json_propagates [OF calls answer 3 4]
  have "fst (forward_request (answering broken_response) example_json example_render
            example_request health_check) = Inl JSONDecodeError"
    by (rule conjunct1)
  with calls answer broken_is_json 4 show ?thesis
    by (intro conjI)
qed

end
